theory Spec2Isabelle
  imports Main "HOL-Library.Char_ord" "HOL-Library.Sublist"
begin

section \<open>Reference patterns (types.ts)\<close>

text \<open>
  The three reference patterns of \<^verbatim>\<open>types.ts\<close> are regular expressions without flags
  that begin with \<^verbatim>\<open>^\<close> and end with \<^verbatim>\<open>$\<close>, so \<^verbatim>\<open>RegExp.prototype.test\<close> answers
  whether the whole input is a word of the pattern between the anchors. The capture
  groups do not influence \<^verbatim>\<open>test\<close>. The pattern body is kept as a syntax tree; a character
  class is the list of its ranges (\<^verbatim>\<open>[A-Z0-9]\<close> has two, \<^verbatim>\<open>\d\<close> is \<^verbatim>\<open>[0-9]\<close>), \<^verbatim>\<open>x+\<close> is
  \<^verbatim>\<open>xx*\<close>. \<open>RNone\<close>, \<open>REps\<close> and \<open>RAlt\<close> only arise while matching. Matching is by
  derivatives: \<open>deriv c r\<close> matches what \<open>r\<close> matches after a leading \<open>c\<close>. Strings are
  lists of 8-bit characters; every character that the patterns accept is ASCII.
\<close>

datatype regex =
    RNone
  | REps
  | RChar char
  | RClass "(char \<times> char) list"
  | RAlt regex regex
  | RSeq regex regex
  | RStar regex

definition RPlus :: "regex \<Rightarrow> regex" where
  "RPlus r = RSeq r (RStar r)"

definition in_class :: "(char \<times> char) list \<Rightarrow> char \<Rightarrow> bool" where
  "in_class rs c = list_ex (\<lambda>(lo, hi). lo \<le> c \<and> c \<le> hi) rs"

fun nullable :: "regex \<Rightarrow> bool" where
  "nullable RNone = False"
| "nullable REps = True"
| "nullable (RChar c) = False"
| "nullable (RClass rs) = False"
| "nullable (RAlt r s) = (nullable r \<or> nullable s)"
| "nullable (RSeq r s) = (nullable r \<and> nullable s)"
| "nullable (RStar r) = True"

fun deriv :: "char \<Rightarrow> regex \<Rightarrow> regex" where
  "deriv c RNone = RNone"
| "deriv c REps = RNone"
| "deriv c (RChar d) = (if c = d then REps else RNone)"
| "deriv c (RClass rs) = (if in_class rs c then REps else RNone)"
| "deriv c (RAlt r s) = RAlt (deriv c r) (deriv c s)"
| "deriv c (RSeq r s) =
     (if nullable r then RAlt (RSeq (deriv c r) s) (deriv c s) else RSeq (deriv c r) s)"
| "deriv c (RStar r) = RSeq (deriv c r) (RStar r)"

fun matches :: "regex \<Rightarrow> string \<Rightarrow> bool" where
  "matches r [] = nullable r"
| "matches r (c # cs) = matches (deriv c r) cs"

text \<open>
  \<^verbatim>\<open>/^body$/.test(s)\<close>
\<close>

definition regex_test :: "regex \<Rightarrow> string \<Rightarrow> bool" where
  "regex_test body s = matches body s"

text \<open>
  \<^verbatim>\<open>([A-Z][A-Z0-9]*)\<close>, the prefix group shared by the three patterns, and \<^verbatim>\<open>(\d+)\<close>.
\<close>

definition PREFIX_GROUP :: regex where
  "PREFIX_GROUP =
     RSeq (RClass [(CHR ''A'', CHR ''Z'')])
          (RStar (RClass [(CHR ''A'', CHR ''Z''), (CHR ''0'', CHR ''9'')]))"

definition DIGITS_GROUP :: regex where
  "DIGITS_GROUP = RPlus (RClass [(CHR ''0'', CHR ''9'')])"

text \<open>
  \<^verbatim>\<open>export const FEATURE_REF_REGEX = /^([A-Z][A-Z0-9]*)-(\d+)$/;\<close>
\<close>

definition FEATURE_REF_REGEX :: regex where
  "FEATURE_REF_REGEX = RSeq PREFIX_GROUP (RSeq (RChar CHR ''-'') DIGITS_GROUP)"

text \<open>
  \<^verbatim>\<open>export const REQUIREMENT_REF_REGEX = /^([A-Z][A-Z0-9]*)-(\d+)-(\d+)$/;\<close>
\<close>

definition REQUIREMENT_REF_REGEX :: regex where
  "REQUIREMENT_REF_REGEX =
     RSeq PREFIX_GROUP
       (RSeq (RChar CHR ''-'') (RSeq DIGITS_GROUP (RSeq (RChar CHR ''-'') DIGITS_GROUP)))"

text \<open>
  \<^verbatim>\<open>export const NOTE_REF_REGEX = /^([A-Z][A-Z0-9]*)-N-(\d+)$/;\<close>
\<close>

definition NOTE_REF_REGEX :: regex where
  "NOTE_REF_REGEX =
     RSeq PREFIX_GROUP
       (RSeq (RChar CHR ''-'') (RSeq (RChar CHR ''N'') (RSeq (RChar CHR ''-'') DIGITS_GROUP)))"

section \<open>Values, errors and the two backends (handlers.ts)\<close>

text \<open>
  JSON values as they travel through the handlers. An object is the list of its own
  enumerable properties in enumeration order, which is the order \<^verbatim>\<open>Object.entries\<close> and
  \<^verbatim>\<open>JSON.stringify\<close> follow. Numbers that the handlers compute with are integers.
\<close>

datatype json =
    JNull
  | JBool bool
  | JNum int
  | JStr string
  | JArr "json list"
  | JObj "(string \<times> json) list"

text \<open>
  The members of the SDK enumeration \<^verbatim>\<open>ErrorCode\<close>, and what a \<^verbatim>\<open>catch\<close> clause can
  receive: an \<^verbatim>\<open>McpError\<close> with the constructor arguments it was built from, another
  \<^verbatim>\<open>Error\<close> with its \<^verbatim>\<open>message\<close>, or any other value with its rendering \<^verbatim>\<open>String(error)\<close>.
\<close>

datatype ErrorCode =
    ConnectionClosed
  | RequestTimeout
  | ParseError
  | InvalidRequest
  | MethodNotFound
  | InvalidParams
  | InternalError

datatype thrown =
    McpError ErrorCode string
  | Error string
  | Thrown string

text \<open>
  The \<^verbatim>\<open>catch\<close> clause that ends every handler, with the handler's own message prefix:
  \<^verbatim>\<open>
    } catch (error) {
      if (error instanceof McpError) { throw error; }
      const errorMessage = error instanceof Error ? error.message : String(error);
      throw new McpError(ErrorCode.InternalError, `Failed to fetch record: ${errorMessage}`);
    }
  \<close>
\<close>

fun catch_block :: "string \<Rightarrow> thrown \<Rightarrow> thrown" where
  "catch_block label (McpError code message) = McpError code message"
| "catch_block label (Error message) = McpError InternalError (label @ message)"
| "catch_block label (Thrown rendering) = McpError InternalError (label @ rendering)"

text \<open>
  The query documents of \<^verbatim>\<open>queries.ts\<close> are constants; only their identity matters here.
\<close>

datatype gql_query =
    getFeatureQuery
  | getRequirementQuery
  | getPageQuery
  | searchDocumentsQuery
  | introspectFeatureFieldsQuery

text \<open>
  What the handlers read of a parsed REST body. The handlers treat the body as untyped;
  this development fixes the shape the REST interface gives it: an optional array
  (\<^verbatim>\<open>features\<close>, \<^verbatim>\<open>products\<close> or \<^verbatim>\<open>releases\<close>), an optional \<^verbatim>\<open>pagination\<close> object with an
  optional integer \<^verbatim>\<open>total_pages\<close>, an optional \<^verbatim>\<open>release\<close> object. \<open>None\<close> stands for a
  member that is absent or \<^verbatim>\<open>null\<close>. Of a product and a release the record keeps the
  members that \<^verbatim>\<open>handleListReleases\<close> reads.
\<close>

record product =
  reference_prefix :: "string option"
  product_name :: "json option"
  product_id :: string

record release =
  reference_num :: "json option"
  release_name :: "string option"
  start_date :: "json option"
  release_date :: "json option"
  parking_lot :: "json option"
  url :: "json option"

record pagination =
  total_pages :: "int option"

record rest_data =
  features :: "json list option"
  products :: "product list option"
  releases :: "release list option"
  release :: "json option"
  pagination :: "pagination option"

text \<open>
  The answer of \<^verbatim>\<open>fetch\<close>: the promise is rejected, or it yields a response of which the
  handlers read \<^verbatim>\<open>ok\<close>, \<^verbatim>\<open>status\<close>, \<^verbatim>\<open>statusText\<close>, \<^verbatim>\<open>text()\<close> and \<^verbatim>\<open>json()\<close>; the last
  two are promises that may be rejected as well.
\<close>

record response =
  ok :: bool
  status :: nat
  statusText :: string
  body_text :: "thrown + string"
  body_json :: "thrown + rest_data"

datatype fetch_outcome = Rejected thrown | Response response

text \<open>
  The requests. A REST request is kept by the parts that the handlers put into the URL
  template and the body (the headers are the same everywhere):
  \<^item> \<open>GET_feature reference\<close>:
    \<^verbatim>\<open>https://${AHA_DOMAIN}.aha.io/api/v1/features/${reference}\<close>
  \<^item> \<open>PUT_feature reference payload\<close>: the same URL, \<^verbatim>\<open>method: 'PUT'\<close>,
    \<^verbatim>\<open>body: JSON.stringify(payload)\<close>
  \<^item> \<open>GET_release_features releaseReference currentPage perPage\<close>:
    \<^verbatim>\<open>.../api/v1/releases/${releaseReference}/features?page=${currentPage}&per_page=${perPage}\<close>
  \<^item> \<open>GET_products productsPage\<close>: \<^verbatim>\<open>.../api/v1/products?page=${productsPage}&per_page=100\<close>
  \<^item> \<open>GET_product_releases id currentPage\<close>:
    \<^verbatim>\<open>.../api/v1/products/${product.id}/releases?page=${currentPage}&per_page=100\<close>
  \<^item> \<open>PUT_release reference payload\<close>: the release update, \<^verbatim>\<open>.../api/v1/releases/${reference}\<close>
  A GraphQL request is the query document with its variables.
\<close>

datatype rest_request =
    GET_feature string
  | PUT_feature string json
  | GET_release_features string int int
  | GET_products int
  | GET_product_releases string int
  | PUT_release string json

datatype request =
    Gql gql_query "json option"
  | Rest rest_request

text \<open>
  The two collaborators: \<^verbatim>\<open>this.client.request(query, variables)\<close> and the global
  \<^verbatim>\<open>fetch\<close>. Within one invocation a handler never issues the same request twice (page
  numbers only grow), so a function of the request describes every backend.
\<close>

record backend =
  client :: "gql_query \<Rightarrow> json option \<Rightarrow> thrown + (string \<times> json) list"
  fetch :: "rest_request \<Rightarrow> fetch_outcome"

text \<open>
  \<^verbatim>\<open>request.params.arguments\<close>: an object whose members may be missing. The member
  \<^verbatim>\<open>fields\<close> is called \<open>fields_arg\<close> here; its value is the list of its entries.
\<close>

record arguments =
  reference :: "string option"
  includeParent :: "bool option"
  query :: "string option"
  searchableType :: "string option"
  fields_arg :: "(string \<times> json) list option"
  releaseReference :: "string option"
  perPage :: "int option"
  workspacePrefix :: "string option"
  name :: "string option"

text \<open>
  The text of the single content item that a handler returns: a literal text, or
  \<^verbatim>\<open>JSON.stringify(value, null, 2)\<close> of a value (\<open>None\<close> is \<^verbatim>\<open>undefined\<close>). A run of a handler
  is the list of requests it issued, in order, with what it threw or returned.
\<close>

datatype tool_text =
    Plain string
  | Stringify "json option"
  | StringifyData rest_data

type_synonym outcome = "request list \<times> (thrown + tool_text)"

text \<open>
  \<^verbatim>\<open>!value\<close> is false exactly for these values.
\<close>

fun truthy :: "json option \<Rightarrow> bool" where
  "truthy None = False"
| "truthy (Some JNull) = False"
| "truthy (Some (JBool b)) = b"
| "truthy (Some (JNum n)) = (n \<noteq> 0)"
| "truthy (Some (JStr s)) = (s \<noteq> [])"
| "truthy (Some (JArr xs)) = True"
| "truthy (Some (JObj kvs)) = True"

text \<open>
  \<^verbatim>\<open>`REST API error: ${response.status} ${response.statusText}`\<close>; the status is a
  natural number, written in decimal.
\<close>

fun decimal :: "nat \<Rightarrow> string" where
  "decimal n =
     (if n < 10 then [char_of (48 + n)] else decimal (n div 10) @ [char_of (48 + n mod 10)])"

declare decimal.simps [simp del]

definition rest_error :: "response \<Rightarrow> string" where
  "rest_error r = ''REST API error: '' @ decimal (status r) @ '' '' @ statusText r"

text \<open>
  \<^verbatim>\<open>try { ... } catch (error) { ... }\<close> around a handler body.
\<close>

definition try_catch :: "string \<Rightarrow> request list \<times> (thrown + 'a) \<Rightarrow> request list \<times> (thrown + 'a)" where
  "try_catch label run =
     (case run of
        (issued, Inl error) \<Rightarrow> (issued, Inl (catch_block label error))
      | (issued, Inr result) \<Rightarrow> (issued, Inr result))"

subsection \<open>The handlers that issue one request\<close>

text \<open>
  \<^verbatim>\<open>handleGetRecord\<close> (lines 27 to 93). \<^verbatim>\<open>!reference\<close> holds for a missing and for an empty
  reference. The invalid-format error is thrown inside the \<^verbatim>\<open>try\<close> block and passes the
  \<^verbatim>\<open>catch\<close> clause unchanged, being an \<^verbatim>\<open>McpError\<close>.
\<close>

definition handleGetRecord :: "backend \<Rightarrow> arguments \<Rightarrow> outcome" where
  "handleGetRecord B a =
     (case reference a of
        None \<Rightarrow> ([], Inl (McpError InvalidParams ''Reference number is required''))
      | Some ref \<Rightarrow>
          if ref = [] then ([], Inl (McpError InvalidParams ''Reference number is required''))
          else
            try_catch ''Failed to fetch record: ''
              (let fetched =
                 (if regex_test FEATURE_REF_REGEX ref then
                    (case client B getFeatureQuery (Some (JObj [(''id'', JStr ref)])) of
                       Inl error \<Rightarrow>
                         ([Gql getFeatureQuery (Some (JObj [(''id'', JStr ref)]))], Inl error)
                     | Inr data \<Rightarrow>
                         ([Gql getFeatureQuery (Some (JObj [(''id'', JStr ref)]))],
                          Inr (map_of data ''feature'')))
                  else if regex_test REQUIREMENT_REF_REGEX ref then
                    (case client B getRequirementQuery (Some (JObj [(''id'', JStr ref)])) of
                       Inl error \<Rightarrow>
                         ([Gql getRequirementQuery (Some (JObj [(''id'', JStr ref)]))], Inl error)
                     | Inr data \<Rightarrow>
                         ([Gql getRequirementQuery (Some (JObj [(''id'', JStr ref)]))],
                          Inr (map_of data ''requirement'')))
                  else
                    ([], Inl (McpError InvalidParams
                       ''Invalid reference number format. Expected DEVELOP-123 or ADT-123-1'')))
               in case fetched of
                    (issued, Inl error) \<Rightarrow> (issued, Inl error)
                  | (issued, Inr result) \<Rightarrow>
                      if \<not> truthy result then
                        (issued, Inr (Plain (''No record found for reference '' @ ref)))
                      else (issued, Inr (Stringify result))))"





subsection \<open>update_feature\<close>

text \<open>
  \<^verbatim>\<open>const standardFieldNames = [ 'name', 'workflow_kind', ... ];\<close> (lines 301 to 309).
\<close>

definition standardFieldNames :: "string list" where
  "standardFieldNames =
     [''name'', ''workflow_kind'', ''workflow_status'', ''release'', ''description'',
      ''created_by'', ''assigned_to_user'', ''tags'',
      ''initial_estimate_text'', ''detailed_estimate_text'', ''remaining_estimate_text'',
      ''initial_estimate'', ''detailed_estimate'', ''remaining_estimate'',
      ''start_date'', ''due_date'', ''release_phase'', ''initiative'', ''epic'',
      ''progress_source'', ''progress'', ''team'', ''team_workflow_status'',
      ''iteration'', ''program_increment'']"

text \<open>
  \<^verbatim>\<open>obj[key] = value\<close> on an object that began as the literal \<^verbatim>\<open>{}\<close>. The assignment
  overwrites an own property in place and appends a new one. For the key \<^verbatim>\<open>__proto__\<close> it
  does neither: the object inherits the accessor \<^verbatim>\<open>Object.prototype.__proto__\<close>, the
  assignment calls its setter (which changes the prototype for an object or \<^verbatim>\<open>null\<close>, and
  does nothing for any other value), and no own property comes into being. An entry list
  obtained from \<^verbatim>\<open>Object.entries\<close> lists integer-like keys first, so appended keys keep
  the enumeration order.
\<close>

definition set_property :: "(string \<times> json) list \<Rightarrow> string \<Rightarrow> json \<Rightarrow> (string \<times> json) list" where
  "set_property obj key val =
     (if key = ''__proto__'' then obj
      else if key \<in> set (map fst obj) then
        map (\<lambda>(k, v). if k = key then (k, val) else (k, v)) obj
      else obj @ [(key, val)])"

text \<open>
  The loop of lines 311 to 317:
  \<^verbatim>\<open>
    for (const [key, value] of Object.entries(fields)) {
      if (standardFieldNames.includes(key)) { standardFields[key] = value; }
      else { customFields[key] = value; }
    }
  \<close>
\<close>

fun partition_fields ::
  "(string \<times> json) list \<Rightarrow> (string \<times> json) list \<times> (string \<times> json) list \<Rightarrow>
   (string \<times> json) list \<times> (string \<times> json) list" where
  "partition_fields [] (customFields, standardFields) = (customFields, standardFields)"
| "partition_fields ((key, val) # entries) (customFields, standardFields) =
     (if key \<in> set standardFieldNames then
        partition_fields entries (customFields, set_property standardFields key val)
      else partition_fields entries (set_property customFields key val, standardFields))"

text \<open>
  Lines 319 to 327:
  \<^verbatim>\<open>
    const payload = { feature: { ...standardFields } };
    if (Object.keys(customFields).length > 0) { payload.feature.custom_fields = customFields; }
  \<close>
\<close>

definition feature_payload :: "(string \<times> json) list \<Rightarrow> json" where
  "feature_payload given =
     (case partition_fields given ([], []) of
        (customFields, standardFields) \<Rightarrow>
          JObj [(''feature'',
                 JObj (if customFields \<noteq> [] then
                         set_property standardFields ''custom_fields'' (JObj customFields)
                       else standardFields))])"

text \<open>
  \<^verbatim>\<open>handleUpdateFeature\<close> (lines 275 to 370). \<^verbatim>\<open>!fields\<close> holds for a missing mapping,
  \<^verbatim>\<open>Object.keys(fields).length === 0\<close> for one without entries.
\<close>

definition handleUpdateFeature :: "backend \<Rightarrow> arguments \<Rightarrow> outcome" where
  "handleUpdateFeature B a =
     (case reference a of
        None \<Rightarrow> ([], Inl (McpError InvalidParams ''Reference number is required''))
      | Some ref \<Rightarrow>
          if ref = [] then ([], Inl (McpError InvalidParams ''Reference number is required''))
          else
            (case fields_arg a of
               None \<Rightarrow>
                 ([], Inl (McpError InvalidParams
                    ''Fields object is required with at least one field to update''))
             | Some given \<Rightarrow>
                 if length (map fst given) = 0 then
                   ([], Inl (McpError InvalidParams
                      ''Fields object is required with at least one field to update''))
                 else
                   try_catch ''Failed to update feature: ''
                     (let sent = PUT_feature ref (feature_payload given)
                      in case fetch B sent of
                           Rejected error \<Rightarrow> ([Rest sent], Inl error)
                         | Response response \<Rightarrow>
                             if \<not> ok response then
                               (case body_text response of
                                  Inl error \<Rightarrow> ([Rest sent], Inl error)
                                | Inr errorBody \<Rightarrow>
                                    ([Rest sent],
                                     Inl (Error (rest_error response @ '' - '' @ errorBody))))
                             else
                               (case body_json response of
                                  Inl error \<Rightarrow> ([Rest sent], Inl error)
                                | Inr data \<Rightarrow> ([Rest sent], Inr (StringifyData data))))))"

subsection \<open>Pagination\<close>

text \<open>
  The three \<^verbatim>\<open>while\<close> loops of \<^verbatim>\<open>handleListFeaturesInRelease\<close> and \<^verbatim>\<open>handleListReleases\<close>
  are the same text up to the URL and the name of the array, so they are one function of
  the two. The loop variables are \<open>allItems\<close> (\<^verbatim>\<open>allFeatures\<close>, \<^verbatim>\<open>allProducts\<close>,
  \<^verbatim>\<open>allReleases\<close>), \<open>currentPage\<close> and \<open>totalPages\<close>. One iteration (lines 392 to 417):
  \<^verbatim>\<open>
    const response = await fetch(url);
    if (!response.ok) { throw new Error(`REST API error: ...`); }
    const data = await response.json();
    if (data.features) { allFeatures.push(...data.features); }
    if (data.pagination) { totalPages = data.pagination.total_pages || 1; }
    currentPage++;
  \<close>
\<close>

record 'a pages =
  allItems :: "'a list"
  currentPage :: int
  totalPages :: int

definition page_step ::
  "(rest_request \<Rightarrow> fetch_outcome) \<Rightarrow> (int \<Rightarrow> rest_request) \<Rightarrow> (rest_data \<Rightarrow> 'a list option) \<Rightarrow>
   'a pages \<Rightarrow> thrown + 'a pages" where
  "page_step fetch_fn endpoint array s =
     (case fetch_fn (endpoint (currentPage s)) of
        Rejected error \<Rightarrow> Inl error
      | Response response \<Rightarrow>
          if \<not> ok response then Inl (Error (rest_error response))
          else
            (case body_json response of
               Inl error \<Rightarrow> Inl error
             | Inr data \<Rightarrow>
                 Inr \<lparr> allItems =
                         (case array data of None \<Rightarrow> allItems s | Some items \<Rightarrow> allItems s @ items),
                       currentPage = currentPage s + 1,
                       totalPages =
                         (case pagination data of
                            None \<Rightarrow> totalPages s
                          | Some p \<Rightarrow>
                              (case total_pages p of
                                 None \<Rightarrow> 1
                               | Some n \<Rightarrow> if n = 0 then 1 else n)) \<rparr>))"

text \<open>
  \<^verbatim>\<open>while (currentPage <= totalPages) { ... }\<close>. The loop need not end: \<open>None\<close> is the
  run that never returns. The requests issued are appended to \<open>issued\<close>.
\<close>

partial_function (option) paginate ::
  "(rest_request \<Rightarrow> fetch_outcome) \<Rightarrow> (int \<Rightarrow> rest_request) \<Rightarrow> (rest_data \<Rightarrow> 'a list option) \<Rightarrow>
   'a pages \<Rightarrow> request list \<Rightarrow> (request list \<times> (thrown + 'a list)) option" where
  "paginate fetch_fn endpoint array s issued =
     (if currentPage s \<le> totalPages s then
        (case page_step fetch_fn endpoint array s of
           Inl error \<Rightarrow> Some (issued @ [Rest (endpoint (currentPage s))], Inl error)
         | Inr s' \<Rightarrow> paginate fetch_fn endpoint array s' (issued @ [Rest (endpoint (currentPage s))]))
      else Some (issued, Inr (allItems s)))"

text \<open>
  \<^verbatim>\<open>const allFeatures = []; let currentPage = 1; let totalPages = 1;\<close>
\<close>

definition first_page :: "'a pages" where
  "first_page = \<lparr> allItems = [], currentPage = 1, totalPages = 1 \<rparr>"

text \<open>
  \<^verbatim>\<open>const { releaseReference, perPage = 100 } = request.params.arguments\<close>
\<close>

definition per_page :: "arguments \<Rightarrow> int" where
  "per_page a = (case perPage a of None \<Rightarrow> 100 | Some n \<Rightarrow> n)"

text \<open>
  \<^verbatim>\<open>handleListFeaturesInRelease\<close> (lines 372 to 444).
\<close>

definition handleListFeaturesInRelease :: "backend \<Rightarrow> arguments \<Rightarrow> outcome option" where
  "handleListFeaturesInRelease B a =
     (case releaseReference a of
        None \<Rightarrow>
          Some ([], Inl (McpError InvalidParams
            ''Release reference is required (e.g., ACT-R-14 or ACTIVATION-R-14)''))
      | Some ref \<Rightarrow>
          if ref = [] then
            Some ([], Inl (McpError InvalidParams
              ''Release reference is required (e.g., ACT-R-14 or ACTIVATION-R-14)''))
          else
            map_option
              (\<lambda>run. try_catch ''Failed to list features in release: ''
                 (case run of
                    (issued, Inl error) \<Rightarrow> (issued, Inl error)
                  | (issued, Inr allFeatures) \<Rightarrow>
                      (issued,
                       Inr (Stringify (Some (JObj
                         [(''total_count'', JNum (int (length allFeatures))),
                          (''features'', JArr allFeatures)]))))))
              (paginate (fetch B)
                 (\<lambda>page. GET_release_features ref page (per_page a))
                 features first_page []))"

subsection \<open>list_releases\<close>



definition members :: "(string \<times> json option) list \<Rightarrow> (string \<times> json) list" where
  "members kvs = concat (map (\<lambda>(k, v). case v of None \<Rightarrow> [] | Some j \<Rightarrow> [(k, j)]) kvs)"





subsection \<open>The operations\<close>

text \<open>
  The methods of the class \<^verbatim>\<open>Handlers\<close>, by the name of the tool they serve, each with
  the message prefix of its \<^verbatim>\<open>catch\<close> clause.
\<close>

datatype operation =
    get_record
  | get_page
  | search_documents
  | introspect_feature
  | get_record_rest
  | update_feature
  | list_features_in_release
  | list_releases


fun label :: "operation \<Rightarrow> string" where
  "label get_record = ''Failed to fetch record: ''"
| "label get_page = ''Failed to fetch page: ''"
| "label search_documents = ''Failed to search documents: ''"
| "label introspect_feature = ''Failed to introspect: ''"
| "label get_record_rest = ''Failed to fetch record via REST: ''"
| "label update_feature = ''Failed to update feature: ''"
| "label list_features_in_release = ''Failed to list features in release: ''"
| "label list_releases = ''Failed to list releases: ''"

subsection \<open>update_release\<close>

text \<open>
  Modelled from the spec: \<^verbatim>\<open>handleUpdateRelease\<close>, which the class \<^verbatim>\<open>Handlers\<close> of
  \<^verbatim>\<open>handlers.ts\<close> does not contain, although the tests of the repository call it. The
  spec gives the operation a reference and a non-empty mapping of fields as required
  arguments, a REST mutation whose path is templated by the reference and whose JSON body
  is \<^verbatim>\<open>{release: {...fields}}\<close>, the result \<^verbatim>\<open>{message, release: {...}}\<close>, and the common
  shape of all operations: missing or empty required arguments fail with
  \<^verbatim>\<open>InvalidArgument\<close> before any request, and failures are wrapped once. The message texts
  are those the tests expect.
\<close>

definition handleUpdateRelease :: "backend \<Rightarrow> arguments \<Rightarrow> outcome" where
  "handleUpdateRelease B a =
     (case reference a of
        None \<Rightarrow> ([], Inl (McpError InvalidParams ''Release reference number is required''))
      | Some ref \<Rightarrow>
          if ref = [] then
            ([], Inl (McpError InvalidParams ''Release reference number is required''))
          else
            (case fields_arg a of
               None \<Rightarrow>
                 ([], Inl (McpError InvalidParams
                    ''Fields object is required with at least one field to update''))
             | Some given \<Rightarrow>
                 if length (map fst given) = 0 then
                   ([], Inl (McpError InvalidParams
                      ''Fields object is required with at least one field to update''))
                 else
                   try_catch ''Failed to update release: ''
                     (let sent = PUT_release ref (JObj [(''release'', JObj given)])
                      in case fetch B sent of
                           Rejected error \<Rightarrow> ([Rest sent], Inl error)
                         | Response response \<Rightarrow>
                             if \<not> ok response then
                               (case body_text response of
                                  Inl error \<Rightarrow> ([Rest sent], Inl error)
                                | Inr errorBody \<Rightarrow>
                                    ([Rest sent],
                                     Inl (Error (rest_error response @ '' - '' @ errorBody))))
                             else
                               (case body_json response of
                                  Inl error \<Rightarrow> ([Rest sent], Inl error)
                                | Inr data \<Rightarrow>
                                    ([Rest sent],
                                     Inr (Stringify (Some (JObj
                                       ((''message'', JStr ''Release updated successfully'') #
                                        members [(''release'', release data)])))))))))"

section \<open>Notions used to state the properties\<close>

subsection \<open>The words of a pattern\<close>

inductive_set star :: "string set \<Rightarrow> string set" for A :: "string set" where
  star_nil: "[] \<in> star A"
| star_app: "u \<in> A \<Longrightarrow> v \<in> star A \<Longrightarrow> u @ v \<in> star A"

fun lang :: "regex \<Rightarrow> string set" where
  "lang RNone = {}"
| "lang REps = {[]}"
| "lang (RChar c) = {[c]}"
| "lang (RClass rs) = {[c] | c. in_class rs c}"
| "lang (RAlt r s) = lang r \<union> lang s"
| "lang (RSeq r s) = {u @ v | u v. u \<in> lang r \<and> v \<in> lang s}"
| "lang (RStar r) = star (lang r)"

definition is_upper :: "char \<Rightarrow> bool" where
  "is_upper c = (CHR ''A'' \<le> c \<and> c \<le> CHR ''Z'')"

definition is_digit :: "char \<Rightarrow> bool" where
  "is_digit c = (CHR ''0'' \<le> c \<and> c \<le> CHR ''9'')"

definition dashes :: "string \<Rightarrow> nat" where
  "dashes s = length (filter (\<lambda>c. c = CHR ''-'') s)"

text \<open>
  The words of the two groups, read off the patterns.
\<close>

definition prefix_word :: "string \<Rightarrow> bool" where
  "prefix_word p \<longleftrightarrow> (\<exists>c w. p = c # w \<and> is_upper c \<and> (\<forall>d \<in> set w. is_upper d \<or> is_digit d))"

definition digits_word :: "string \<Rightarrow> bool" where
  "digits_word d \<longleftrightarrow> d \<noteq> [] \<and> (\<forall>c \<in> set d. is_digit c)"

subsection \<open>What a backend answers\<close>

text \<open>
  The exception that the answer to a request raises inside a handler, if any: the
  rejection of \<^verbatim>\<open>fetch\<close> or of the client, the \<^verbatim>\<open>REST API error\<close> for a response that is
  not ok, the rejection of \<^verbatim>\<open>json()\<close>. \<^verbatim>\<open>handleUpdateFeature\<close> alone adds the body text to
  the message.
\<close>

definition rest_failure :: "fetch_outcome \<Rightarrow> thrown option" where
  "rest_failure answer =
     (case answer of
        Rejected error \<Rightarrow> Some error
      | Response r \<Rightarrow>
          if \<not> ok r then Some (Error (rest_error r))
          else (case body_json r of Inl error \<Rightarrow> Some error | Inr data \<Rightarrow> None))"



text \<open>
  An answer that is an ok response with the parsed body \<open>data\<close>; a body whose
  \<^verbatim>\<open>pagination\<close> object is there and gives no count or the count 0; a page of the feature
  listing with its array and its declared count.
\<close>

definition ok_body :: "fetch_outcome \<Rightarrow> rest_data \<Rightarrow> bool" where
  "ok_body answer data \<longleftrightarrow> (\<exists>r. answer = Response r \<and> ok r \<and> body_json r = Inr data)"


definition answers_page :: "fetch_outcome \<Rightarrow> json list \<Rightarrow> int \<Rightarrow> bool" where
  "answers_page answer items count \<longleftrightarrow>
     (\<exists>r data. answer = Response r \<and> ok r \<and> body_json r = Inr data \<and>
        features data = Some items \<and>
        map_option total_pages (pagination data) = Some (Some count))"

text \<open>
  The items that an answer carries in the array \<open>array\<close> (none when the array is
  missing), and the total-page count that the loop holds after an answer, given the count
  it held before.
\<close>

definition received :: "(rest_data \<Rightarrow> 'a list option) \<Rightarrow> fetch_outcome \<Rightarrow> 'a list" where
  "received array answer =
     (case answer of
        Rejected error \<Rightarrow> []
      | Response r \<Rightarrow>
          (case body_json r of
             Inl error \<Rightarrow> []
           | Inr data \<Rightarrow> (case array data of None \<Rightarrow> [] | Some items \<Rightarrow> items)))"

definition declared :: "fetch_outcome \<Rightarrow> int \<Rightarrow> int" where
  "declared answer before =
     (case answer of
        Rejected error \<Rightarrow> before
      | Response r \<Rightarrow>
          (case body_json r of
             Inl error \<Rightarrow> before
           | Inr data \<Rightarrow>
               (case pagination data of
                  None \<Rightarrow> before
                | Some p \<Rightarrow> (case total_pages p of None \<Rightarrow> 1 | Some n \<Rightarrow> if n = 0 then 1 else n))))"

text \<open>
  The count held after \<open>k\<close> further fetches, for a loop that holds \<open>before\<close> and is
  about to fetch page \<open>p\<close>.
\<close>

fun held_after :: "(int \<Rightarrow> fetch_outcome) \<Rightarrow> int \<Rightarrow> int \<Rightarrow> nat \<Rightarrow> int" where
  "held_after answers before p 0 = before"
| "held_after answers before p (Suc k) =
     held_after answers (declared (answers p) before) (p + 1) k"

text \<open>
  A run of the loop from the state \<open>(acc, cur, tot)\<close> that made \<open>n\<close> fetches and ended
  with \<open>res\<close>: every fetch was made under the loop condition; a run that returns saw no
  failure, returns all items received and stopped on the loop condition; a run that throws
  saw its only failure at the last fetch.
\<close>

definition run_of ::
  "(int \<Rightarrow> fetch_outcome) \<Rightarrow> (rest_data \<Rightarrow> 'a list option) \<Rightarrow> 'a list \<Rightarrow> int \<Rightarrow> int \<Rightarrow> nat \<Rightarrow>
   (thrown + 'a list) \<Rightarrow> bool" where
  "run_of A arr acc cur tot n res \<longleftrightarrow>
     (\<forall>k<n. cur + int k \<le> held_after A tot cur k) \<and>
     (case res of
        Inr items \<Rightarrow>
          (\<forall>k<n. rest_failure (A (cur + int k)) = None) \<and>
          items = acc @ concat (map (\<lambda>k. received arr (A (cur + int k))) [0..<n]) \<and>
          \<not> cur + int n \<le> held_after A tot cur n
      | Inl err \<Rightarrow>
          (\<exists>m. n = Suc m \<and> rest_failure (A (cur + int m)) = Some err \<and>
               (\<forall>k<m. rest_failure (A (cur + int k)) = None)))"


text \<open>
  The answers of the feature listing by page, its result text, and an answer in which a
  missing \<^verbatim>\<open>features\<close> array is replaced by the empty array.
\<close>

definition features_answer :: "backend \<Rightarrow> arguments \<Rightarrow> string \<Rightarrow> int \<Rightarrow> fetch_outcome" where
  "features_answer B a ref p = fetch B (GET_release_features ref p (per_page a))"

definition features_text :: "json list \<Rightarrow> tool_text" where
  "features_text allFeatures =
     Stringify (Some (JObj [(''total_count'', JNum (int (length allFeatures))),
                            (''features'', JArr allFeatures)]))"


subsection \<open>Arguments and backends used as examples\<close>

definition no_arguments :: arguments where
  "no_arguments =
     \<lparr> reference = None, includeParent = None, query = None, searchableType = None,
       fields_arg = None, releaseReference = None, perPage = None, workspacePrefix = None,
       name = None \<rparr>"

definition empty_backend :: backend where
  "empty_backend = \<lparr> client = (\<lambda>q v. Inr []), fetch = (\<lambda>r. Rejected (Error ''offline'')) \<rparr>"


definition page_response :: "json list option \<Rightarrow> pagination option \<Rightarrow> response" where
  "page_response items pages =
     \<lparr> ok = True, status = 200, statusText = ''OK'', body_text = Inr [],
       body_json = Inr \<lparr> features = items, products = None, releases = None, release = None, pagination = pages \<rparr> \<rparr>"

definition three_pages_backend :: backend where
  "three_pages_backend =
     \<lparr> client = (\<lambda>q v. Inr []),
       fetch = (\<lambda>r. case r of
                  GET_release_features ref p n \<Rightarrow>
                    Response (page_response (Some [JNum p]) (Some \<lparr> total_pages = Some 3 \<rparr>))
                | _ \<Rightarrow> Rejected (Error ''offline'')) \<rparr>"






definition release_backend :: backend where
  "release_backend =
     \<lparr> client = (\<lambda>q v. Inr []),
       fetch = (\<lambda>r. case r of
                  PUT_release ref payload \<Rightarrow>
                    Response \<lparr> ok = True, status = 200, statusText = ''OK'', body_text = Inr [],
                               body_json = Inr \<lparr> features = None, products = None, releases = None,
                                 release = Some (JObj [(''reference_num'', JStr ref),
                                                      (''parking_lot'', JBool True)]),
                                 pagination = None \<rparr> \<rparr>
                | _ \<Rightarrow> Rejected (Error ''offline'')) \<rparr>"

section \<open>The reference patterns are disjoint\<close>

lemma nullable_lang: "nullable r \<longleftrightarrow> [] \<in> lang r"
  by (induction r) (auto intro: star_nil)

lemma star_cons_split:
  assumes "w \<in> star A" and "w = c # x"
  shows "\<exists>u v. x = u @ v \<and> c # u \<in> A \<and> v \<in> star A"
  using assms
proof (induction arbitrary: x rule: star.induct)
  case star_nil
  then show ?case by simp
next
  case (star_app u v)
  show ?case
  proof (cases u)
    case Nil
    with star_app show ?thesis by simp
  next
    case (Cons a u')
    with star_app.prems have "a = c" and "x = u' @ v" by simp_all
    with Cons star_app.hyps show ?thesis by blast
  qed
qed

lemma star_cons: "c # x \<in> star A \<longleftrightarrow> (\<exists>u v. x = u @ v \<and> c # u \<in> A \<and> v \<in> star A)"
proof
  assume "c # x \<in> star A"
  then show "\<exists>u v. x = u @ v \<and> c # u \<in> A \<and> v \<in> star A"
    using star_cons_split by blast
next
  assume "\<exists>u v. x = u @ v \<and> c # u \<in> A \<and> v \<in> star A"
  then obtain u v where "x = u @ v" "c # u \<in> A" "v \<in> star A" by blast
  then have "(c # u) @ v \<in> star A" by (intro star_app)
  with \<open>x = u @ v\<close> show "c # x \<in> star A" by simp
qed

lemma deriv_lang: "w \<in> lang (deriv c r) \<longleftrightarrow> c # w \<in> lang r"
proof (induction r arbitrary: w)
  case (RSeq r s)
  have "c # w \<in> lang (RSeq r s) \<longleftrightarrow>
        ([] \<in> lang r \<and> c # w \<in> lang s) \<or> (\<exists>u v. w = u @ v \<and> c # u \<in> lang r \<and> v \<in> lang s)"
    by (auto simp: Cons_eq_append_conv)
  with RSeq show ?case
    by (auto simp: nullable_lang)
next
  case (RStar r)
  then show ?case by (auto simp: star_cons)
qed auto

lemma matches_lang: "matches r w \<longleftrightarrow> w \<in> lang r"
  by (induction w arbitrary: r) (simp_all add: nullable_lang deriv_lang)

lemma in_class_upper: "in_class [(CHR ''A'', CHR ''Z'')] c \<longleftrightarrow> is_upper c"
  by (simp add: in_class_def is_upper_def)

lemma in_class_digit: "in_class [(CHR ''0'', CHR ''9'')] c \<longleftrightarrow> is_digit c"
  by (simp add: in_class_def is_digit_def)

lemma in_class_alnum:
  "in_class [(CHR ''A'', CHR ''Z''), (CHR ''0'', CHR ''9'')] c \<longleftrightarrow> is_upper c \<or> is_digit c"
  by (simp add: in_class_def is_upper_def is_digit_def)

lemma star_singletons: "w \<in> star {[c] | c. P c} \<longleftrightarrow> (\<forall>c \<in> set w. P c)"
proof
  assume "w \<in> star {[c] | c. P c}"
  then show "\<forall>c \<in> set w. P c"
    by (induction rule: star.induct) auto
next
  assume "\<forall>c \<in> set w. P c"
  then show "w \<in> star {[c] | c. P c}"
  proof (induction w)
    case Nil
    show ?case by (rule star_nil)
  next
    case (Cons a w)
    then have "[a] \<in> {[c] | c. P c}" and "w \<in> star {[c] | c. P c}" by auto
    then have "[a] @ w \<in> star {[c] | c. P c}" by (rule star_app)
    then show ?case by simp
  qed
qed

lemma lang_seq: "w \<in> lang (RSeq r s) \<longleftrightarrow> (\<exists>u v. w = u @ v \<and> u \<in> lang r \<and> v \<in> lang s)"
  by auto

lemma lang_class_seq:
  "w \<in> lang (RSeq (RClass rs) s) \<longleftrightarrow> (\<exists>c v. w = c # v \<and> in_class rs c \<and> v \<in> lang s)"
proof
  assume "w \<in> lang (RSeq (RClass rs) s)"
  then show "\<exists>c v. w = c # v \<and> in_class rs c \<and> v \<in> lang s" by auto
next
  assume "\<exists>c v. w = c # v \<and> in_class rs c \<and> v \<in> lang s"
  then obtain c v where "w = [c] @ v" "[c] \<in> lang (RClass rs)" "v \<in> lang s" by auto
  then show "w \<in> lang (RSeq (RClass rs) s)" unfolding lang_seq by blast
qed

lemma lang_char_seq:
  "w \<in> lang (RSeq (RChar c) s) \<longleftrightarrow> (\<exists>v. w = c # v \<and> v \<in> lang s)"
  by auto

lemma lang_PREFIX_GROUP: "p \<in> lang PREFIX_GROUP \<longleftrightarrow> prefix_word p"
  unfolding PREFIX_GROUP_def prefix_word_def lang_class_seq
  by (simp add: in_class_upper in_class_alnum star_singletons)

lemma lang_DIGITS_GROUP: "d \<in> lang DIGITS_GROUP \<longleftrightarrow> digits_word d"
  unfolding DIGITS_GROUP_def RPlus_def digits_word_def lang_class_seq
  by (cases d) (auto simp: in_class_digit star_singletons)

lemma feature_words:
  "regex_test FEATURE_REF_REGEX s \<longleftrightarrow>
     (\<exists>p d. s = p @ CHR ''-'' # d \<and> prefix_word p \<and> digits_word d)"
  unfolding regex_test_def matches_lang FEATURE_REF_REGEX_def lang_seq[of _ PREFIX_GROUP]
    lang_char_seq lang_PREFIX_GROUP lang_DIGITS_GROUP
  by blast

lemma requirement_words:
  "regex_test REQUIREMENT_REF_REGEX s \<longleftrightarrow>
     (\<exists>p d e. s = p @ CHR ''-'' # d @ CHR ''-'' # e \<and>
        prefix_word p \<and> digits_word d \<and> digits_word e)"
  unfolding regex_test_def matches_lang REQUIREMENT_REF_REGEX_def lang_seq[of _ PREFIX_GROUP]
    lang_seq[of _ DIGITS_GROUP] lang_char_seq lang_PREFIX_GROUP lang_DIGITS_GROUP
  by blast

lemma note_words:
  "regex_test NOTE_REF_REGEX s \<longleftrightarrow>
     (\<exists>p d. s = p @ CHR ''-'' # CHR ''N'' # CHR ''-'' # d \<and> prefix_word p \<and> digits_word d)"
  unfolding regex_test_def matches_lang NOTE_REF_REGEX_def lang_seq[of _ PREFIX_GROUP]
    lang_char_seq lang_PREFIX_GROUP lang_DIGITS_GROUP
  by blast

lemma dash_not_upper: "\<not> is_upper CHR ''-''"
  and dash_not_digit: "\<not> is_digit CHR ''-''"
  and N_not_digit: "\<not> is_digit CHR ''N''"
  by (simp_all add: is_upper_def is_digit_def)

lemma dashes_append: "dashes (u @ v) = dashes u + dashes v"
  by (simp add: dashes_def)

lemma dashes_Cons: "dashes (c # v) = (if c = CHR ''-'' then 1 else 0) + dashes v"
  by (simp add: dashes_def)

lemma dashes_prefix_word: "prefix_word p \<Longrightarrow> dashes p = 0"
  unfolding prefix_word_def dashes_def
  using dash_not_upper dash_not_digit by (auto simp: filter_empty_conv)

lemma dashes_digits_word: "digits_word d \<Longrightarrow> dashes d = 0"
  unfolding digits_word_def dashes_def
  using dash_not_digit by (auto simp: filter_empty_conv)

lemma feature_dashes: "regex_test FEATURE_REF_REGEX s \<Longrightarrow> dashes s = 1"
  unfolding feature_words
  by (auto simp: dashes_append dashes_Cons dashes_prefix_word dashes_digits_word)

lemma requirement_dashes: "regex_test REQUIREMENT_REF_REGEX s \<Longrightarrow> dashes s = 2"
  unfolding requirement_words
  by (auto simp: dashes_append dashes_Cons dashes_prefix_word dashes_digits_word)

lemma note_dashes: "regex_test NOTE_REF_REGEX s \<Longrightarrow> dashes s = 2"
  unfolding note_words
  by (auto simp: dashes_append dashes_Cons dashes_prefix_word dashes_digits_word)

lemma dash_free_split:
  assumes "p @ CHR ''-'' # x = q @ CHR ''-'' # y" and "dashes p = 0" and "dashes q = 0"
  shows "p = q \<and> x = y"
proof -
  have np: "CHR ''-'' \<notin> set p" and nq: "CHR ''-'' \<notin> set q"
    using assms(2,3) by (auto simp: dashes_def filter_empty_conv)
  have "takeWhile (\<lambda>c. c \<noteq> CHR ''-'') (p @ CHR ''-'' # x) = p"
    using np by (auto simp: takeWhile_tail)
  moreover have "takeWhile (\<lambda>c. c \<noteq> CHR ''-'') (q @ CHR ''-'' # y) = q"
    using nq by (auto simp: takeWhile_tail)
  ultimately have "p = q" using assms(1) by simp
  with assms(1) show ?thesis by simp
qed

lemma feature_not_requirement:
  "\<not> (regex_test FEATURE_REF_REGEX s \<and> regex_test REQUIREMENT_REF_REGEX s)"
  using feature_dashes[of s] requirement_dashes[of s] by auto

lemma feature_not_note:
  "\<not> (regex_test FEATURE_REF_REGEX s \<and> regex_test NOTE_REF_REGEX s)"
  using feature_dashes[of s] note_dashes[of s] by auto

lemma requirement_not_note:
  "\<not> (regex_test REQUIREMENT_REF_REGEX s \<and> regex_test NOTE_REF_REGEX s)"
proof
  assume a: "regex_test REQUIREMENT_REF_REGEX s \<and> regex_test NOTE_REF_REGEX s"
  then obtain p d e where r: "s = p @ CHR ''-'' # d @ CHR ''-'' # e" "prefix_word p" "digits_word d"
    unfolding requirement_words by blast
  from a obtain q f where n: "s = q @ CHR ''-'' # CHR ''N'' # CHR ''-'' # f" "prefix_word q"
    unfolding note_words by blast
  from r(1) n(1) have "d @ CHR ''-'' # e = CHR ''N'' # CHR ''-'' # f"
    using dash_free_split[of p "d @ CHR ''-'' # e" q]
      dashes_prefix_word[OF r(2)] dashes_prefix_word[OF n(2)]
    by simp
  moreover from r(3) obtain c d' where "d = c # d'" "is_digit c"
    unfolding digits_word_def by (cases d) auto
  ultimately show False using N_not_digit by simp
qed

text \<open>
  C2. The three reference patterns are pairwise disjoint: of \<open>FEATURE_REF_REGEX\<close>,
  \<open>REQUIREMENT_REF_REGEX\<close> and \<open>NOTE_REF_REGEX\<close>, at most one matches any given string.
\<close>

theorem reference_patterns_disjoint:
  "length (filter (\<lambda>r. regex_test r s)
      [FEATURE_REF_REGEX, REQUIREMENT_REF_REGEX, NOTE_REF_REGEX]) \<le> 1"
  using feature_not_requirement[of s] feature_not_note[of s] requirement_not_note[of s]
  by auto

theorem reference_patterns_disjoint_witness:
  "regex_test FEATURE_REF_REGEX ''PROJ-1'' \<and> \<not> regex_test REQUIREMENT_REF_REGEX ''PROJ-1'' \<and>
   \<not> regex_test NOTE_REF_REGEX ''PROJ-1'' \<and>
   \<not> regex_test FEATURE_REF_REGEX ''PROJ-1-1'' \<and> regex_test REQUIREMENT_REF_REGEX ''PROJ-1-1'' \<and>
   \<not> regex_test NOTE_REF_REGEX ''PROJ-1-1'' \<and>
   \<not> regex_test FEATURE_REF_REGEX ''PROJ-N-1'' \<and> \<not> regex_test REQUIREMENT_REF_REGEX ''PROJ-N-1'' \<and>
   regex_test NOTE_REF_REGEX ''PROJ-N-1''"
proof -
  have f: "regex_test FEATURE_REF_REGEX ''PROJ-1''" by code_simp
  have r: "regex_test REQUIREMENT_REF_REGEX ''PROJ-1-1''" by code_simp
  have n: "regex_test NOTE_REF_REGEX ''PROJ-N-1''" by code_simp
  show ?thesis
    using f r n reference_patterns_disjoint[of "''PROJ-1''"]
      reference_patterns_disjoint[of "''PROJ-1-1''"] reference_patterns_disjoint[of "''PROJ-N-1''"]
    by (auto split: if_splits)
qed

section \<open>get_record\<close>

text \<open>
  C1. For a call of get_record with a reference that is present (the handler's test
  \<^verbatim>\<open>!reference\<close> fails: the reference is given and not empty): if the reference matches
  the feature pattern, the feature query is the one request issued; otherwise, if it
  matches the requirement pattern, the requirement query is the one request issued;
  otherwise the handler throws \<open>InvalidParams\<close> with the message that names the two
  expected formats, and issues no request. When the query issued returns no record, the
  handler returns the text "No record found for reference ..." and throws nothing.
\<close>

theorem get_record_routes:
  assumes "reference a = Some ref" and "ref \<noteq> []"
  shows
    "(regex_test FEATURE_REF_REGEX ref \<longrightarrow>
        fst (handleGetRecord B a) = [Gql getFeatureQuery (Some (JObj [(''id'', JStr ref)]))] \<and>
        (\<forall>data. client B getFeatureQuery (Some (JObj [(''id'', JStr ref)])) = Inr data \<and>
                \<not> truthy (map_of data ''feature'') \<longrightarrow>
           snd (handleGetRecord B a) = Inr (Plain (''No record found for reference '' @ ref)))) \<and>
     (\<not> regex_test FEATURE_REF_REGEX ref \<and> regex_test REQUIREMENT_REF_REGEX ref \<longrightarrow>
        fst (handleGetRecord B a) = [Gql getRequirementQuery (Some (JObj [(''id'', JStr ref)]))] \<and>
        (\<forall>data. client B getRequirementQuery (Some (JObj [(''id'', JStr ref)])) = Inr data \<and>
                \<not> truthy (map_of data ''requirement'') \<longrightarrow>
           snd (handleGetRecord B a) = Inr (Plain (''No record found for reference '' @ ref)))) \<and>
     (\<not> regex_test FEATURE_REF_REGEX ref \<and> \<not> regex_test REQUIREMENT_REF_REGEX ref \<longrightarrow>
        handleGetRecord B a =
          ([], Inl (McpError InvalidParams
             ''Invalid reference number format. Expected DEVELOP-123 or ADT-123-1'')))"
  using assms
  by (auto simp: handleGetRecord_def try_catch_def split: sum.splits)

lemma PROJ_999_is_feature: "regex_test FEATURE_REF_REGEX ''PROJ-999''" by code_simp

lemma PROJ_1_1_is_requirement: "\<not> regex_test FEATURE_REF_REGEX ''PROJ-1-1''" "regex_test REQUIREMENT_REF_REGEX ''PROJ-1-1''" by code_simp+

lemma proj_1_is_neither: "\<not> regex_test FEATURE_REF_REGEX ''proj-1''" "\<not> regex_test REQUIREMENT_REF_REGEX ''proj-1''" by code_simp+

theorem get_record_routes_witness:
  "handleGetRecord empty_backend (no_arguments\<lparr>reference := Some ''PROJ-999''\<rparr>) =
     ([Gql getFeatureQuery (Some (JObj [(''id'', JStr ''PROJ-999'')]))],
      Inr (Plain ''No record found for reference PROJ-999'')) \<and>
   fst (handleGetRecord empty_backend (no_arguments\<lparr>reference := Some ''PROJ-1-1''\<rparr>)) =
     [Gql getRequirementQuery (Some (JObj [(''id'', JStr ''PROJ-1-1'')]))] \<and>
   handleGetRecord empty_backend (no_arguments\<lparr>reference := Some ''proj-1''\<rparr>) =
     ([], Inl (McpError InvalidParams
        ''Invalid reference number format. Expected DEVELOP-123 or ADT-123-1''))"
proof -
  have a: "reference (no_arguments\<lparr>reference := Some r\<rparr>) = Some r" for r
    by simp
  have c: "client empty_backend q v = Inr []" for q v
    by (simp add: empty_backend_def)
  show ?thesis
    using get_record_routes[OF a, of "''PROJ-999''" empty_backend]
      get_record_routes[OF a, of "''PROJ-1-1''" empty_backend]
      get_record_routes[OF a, of "''proj-1''" empty_backend]
      PROJ_999_is_feature PROJ_1_1_is_requirement proj_1_is_neither c
    by (simp add: prod_eq_iff)
qed

section \<open>update_feature\<close>

lemma set_property_fresh:
  "key \<noteq> ''__proto__'' \<Longrightarrow> key \<notin> set (map fst obj) \<Longrightarrow> set_property obj key val = obj @ [(key, val)]"
  by (simp add: set_property_def)

lemma partition_fields_filter:
  assumes "distinct (map fst given)" and "''__proto__'' \<notin> set (map fst given)"
    and "set (map fst given) \<inter> (set (map fst c) \<union> set (map fst s)) = {}"
  shows "partition_fields given (c, s) =
     (c @ filter (\<lambda>(k, v). k \<notin> set standardFieldNames) given,
      s @ filter (\<lambda>(k, v). k \<in> set standardFieldNames) given)"
  using assms
proof (induction given arbitrary: c s)
  case Nil
  show ?case by simp
next
  case (Cons kv given)
  obtain key val where kv: "kv = (key, val)" by (cases kv)
  from Cons.prems kv have fresh: "key \<noteq> ''__proto__''" "key \<notin> set (map fst c)" "key \<notin> set (map fst s)"
    and rest: "distinct (map fst given)" "''__proto__'' \<notin> set (map fst given)"
      "key \<notin> set (map fst given)"
      "set (map fst given) \<inter> (set (map fst c) \<union> set (map fst s)) = {}"
    by auto
  show ?case
  proof (cases "key \<in> set standardFieldNames")
    case True
    from rest have "set (map fst given) \<inter> (set (map fst c) \<union> set (map fst (s @ [(key, val)]))) = {}"
      by auto
    from Cons.IH[OF rest(1,2) this] True fresh kv show ?thesis
      by (simp add: set_property_fresh)
  next
    case False
    from rest have "set (map fst given) \<inter> (set (map fst (c @ [(key, val)])) \<union> set (map fst s)) = {}"
      by auto
    from Cons.IH[OF rest(1,2) this] False fresh kv show ?thesis
      by (simp add: set_property_fresh)
  qed
qed

lemma custom_fields_not_standard: "''custom_fields'' \<notin> set standardFieldNames"
  by (simp add: standardFieldNames_def)

lemma length_standardFieldNames:
  "length standardFieldNames = 25 \<and> distinct standardFieldNames"
  by (simp add: standardFieldNames_def)

text \<open>
  For a mapping without the key \<^verbatim>\<open>__proto__\<close> the body is as the partition says: the
  entries with a standard name, then \<^verbatim>\<open>custom_fields\<close> with the other entries, left out
  when there are none; and the two parts, read as mappings, do not depend on the order of
  the entries.
\<close>

lemma feature_payload_partition:
  assumes "distinct (map fst given)" and "''__proto__'' \<notin> set (map fst given)"
  shows "feature_payload given =
     JObj [(''feature'',
            JObj (filter (\<lambda>(k, v). k \<in> set standardFieldNames) given @
                  (if filter (\<lambda>(k, v). k \<notin> set standardFieldNames) given = [] then []
                   else [(''custom_fields'',
                          JObj (filter (\<lambda>(k, v). k \<notin> set standardFieldNames) given))])))]"
proof -
  have p: "partition_fields given ([], []) =
      (filter (\<lambda>(k, v). k \<notin> set standardFieldNames) given,
       filter (\<lambda>(k, v). k \<in> set standardFieldNames) given)"
    using partition_fields_filter[OF assms, of "[]" "[]"] by simp
  have "''custom_fields'' \<notin> set (map fst (filter (\<lambda>(k, v). k \<in> set standardFieldNames) given))"
    using custom_fields_not_standard by auto
  then show ?thesis
    unfolding feature_payload_def p by (simp add: set_property_fresh)
qed

lemma feature_payload_order_independent:
  assumes "distinct (map fst given)" and "distinct (map fst given')" and "set given = set given'"
  shows "map_of (filter (\<lambda>(k, v). k \<in> set standardFieldNames) given) =
         map_of (filter (\<lambda>(k, v). k \<in> set standardFieldNames) given') \<and>
         map_of (filter (\<lambda>(k, v). k \<notin> set standardFieldNames) given) =
         map_of (filter (\<lambda>(k, v). k \<notin> set standardFieldNames) given')"
  using assms by (auto intro!: map_of_inject_set[THEN iffD2] simp: distinct_map_filter)

text \<open>
  C3. For every non-empty fields mapping the mutation body is
  \<^verbatim>\<open>{feature: {...standard, custom_fields: {...extension}}}\<close>, where \<open>standard\<close> holds
  exactly the entries whose key is one of the 25 standard names and \<open>extension\<close> holds
  exactly the remaining entries. The handler does not keep this for the key \<^verbatim>\<open>__proto__\<close>:
  it is not a standard name, yet the assignment \<^verbatim>\<open>customFields[key] = value\<close> creates no
  property for it. A mapping with this key alone passes the check for emptiness and is
  sent as \<^verbatim>\<open>{"feature":{}}\<close>; beside other keys the entry is left out of \<^verbatim>\<open>custom_fields\<close>.
\<close>

theorem update_feature_drops_proto_key:
  "feature_payload [(''__proto__'', JStr ''2025-04-01'')] = JObj [(''feature'', JObj [])] \<and>
   fst (handleUpdateFeature empty_backend
          (no_arguments\<lparr>reference := Some ''PROJ-1'',
                        fields_arg := Some [(''__proto__'', JStr ''2025-04-01'')]\<rparr>)) =
     [Rest (PUT_feature ''PROJ-1'' (JObj [(''feature'', JObj [])]))] \<and>
   feature_payload [(''name'', JStr ''New Name''), (''__proto__'', JObj [(''a'', JNum 1)]),
                    (''go_live_date'', JStr ''2024-06-01'')] =
     JObj [(''feature'', JObj [(''name'', JStr ''New Name''),
                              (''custom_fields'', JObj [(''go_live_date'', JStr ''2024-06-01'')])])]"
  by (simp add: feature_payload_def set_property_def standardFieldNames_def
      handleUpdateFeature_def try_catch_def empty_backend_def no_arguments_def)

text \<open>
  C4. When the fields argument of update_feature is missing or has no keys, the handler
  throws \<open>InvalidParams\<close> and issues no request. Whenever it does issue a request, the
  mapping it partitioned had at least one key.
\<close>

theorem update_feature_rejects_empty_fields:
  "(fields_arg a = None \<or> fields_arg a = Some [] \<longrightarrow>
      handleUpdateFeature B a =
        ([], Inl (McpError InvalidParams
           (if reference a = None \<or> reference a = Some [] then ''Reference number is required''
            else ''Fields object is required with at least one field to update'')))) \<and>
   (fst (handleUpdateFeature B a) \<noteq> [] \<longrightarrow>
      (\<exists>ref given. reference a = Some ref \<and> fields_arg a = Some given \<and> given \<noteq> [] \<and>
         fst (handleUpdateFeature B a) = [Rest (PUT_feature ref (feature_payload given))]))"
  by (auto simp: handleUpdateFeature_def try_catch_def Let_def
      split: option.splits sum.splits fetch_outcome.splits)

theorem update_feature_rejects_empty_fields_witness:
  "handleUpdateFeature empty_backend
      (no_arguments\<lparr>reference := Some ''PROJ-1'', fields_arg := Some []\<rparr>) =
     ([], Inl (McpError InvalidParams
        ''Fields object is required with at least one field to update'')) \<and>
   handleUpdateFeature empty_backend (no_arguments\<lparr>reference := Some ''PROJ-1''\<rparr>) =
     ([], Inl (McpError InvalidParams
        ''Fields object is required with at least one field to update''))"
  using update_feature_rejects_empty_fields[of
      "no_arguments\<lparr>reference := Some ''PROJ-1'', fields_arg := Some []\<rparr>" empty_backend]
    update_feature_rejects_empty_fields[of "no_arguments\<lparr>reference := Some ''PROJ-1''\<rparr>" empty_backend]
  by (simp add: no_arguments_def)

section \<open>The pagination loop\<close>

lemma page_step_Inl:
  "page_step f e arr s = Inl err \<Longrightarrow> rest_failure (f (e (currentPage s))) = Some err"
  by (auto simp: page_step_def rest_failure_def split: fetch_outcome.splits if_splits sum.splits)

lemma page_step_Inr:
  "page_step f e arr s = Inr s' \<Longrightarrow>
     rest_failure (f (e (currentPage s))) = None \<and>
     s' = \<lparr> allItems = allItems s @ received arr (f (e (currentPage s))),
            currentPage = currentPage s + 1,
            totalPages = declared (f (e (currentPage s))) (totalPages s) \<rparr>"
  by (auto simp: page_step_def rest_failure_def received_def declared_def
      split: fetch_outcome.splits if_splits sum.splits option.splits)



lemma page_step_answers_page:
  assumes "answers_page (f (e (currentPage s))) items count"
  shows "page_step f e features s =
     Inr \<lparr> allItems = allItems s @ items, currentPage = currentPage s + 1,
           totalPages = (if count = 0 then 1 else count) \<rparr>"
  using assms unfolding answers_page_def page_step_def
  by (auto split: option.splits)

lemma paginate_stop:
  "\<not> currentPage s \<le> totalPages s \<Longrightarrow> paginate f e arr s tr = Some (tr, Inr (allItems s))"
  by (subst paginate.simps) simp


lemma paginate_next:
  "currentPage s \<le> totalPages s \<Longrightarrow> page_step f e arr s = Inr s' \<Longrightarrow>
   paginate f e arr s tr = paginate f e arr s' (tr @ [Rest (e (currentPage s))])"
  by (subst paginate.simps) simp

lemma run_of_stop: "\<not> cur \<le> tot \<Longrightarrow> run_of A arr acc cur tot 0 (Inr acc)"
  by (simp add: run_of_def)

lemma run_of_fail:
  "cur \<le> tot \<Longrightarrow> rest_failure (A cur) = Some err \<Longrightarrow> run_of A arr acc cur tot (Suc 0) (Inl err)"
  by (simp add: run_of_def)

lemma run_of_step:
  assumes "cur \<le> tot" and "rest_failure (A cur) = None"
    and "run_of A arr (acc @ received arr (A cur)) (cur + 1) (declared (A cur) tot) n res"
  shows "run_of A arr acc cur tot (Suc n) res"
proof -
  have shift: "cur + 1 + int k = cur + int (Suc k)" for k by simp
  have cont: "\<forall>k<Suc n. cur + int k \<le> held_after A tot cur k"
    using assms(1,3) unfolding run_of_def All_less_Suc2 shift by simp
  show ?thesis
  proof (cases res)
    case (Inr items)
    have "map (\<lambda>k. received arr (A (cur + int k))) [0..<Suc n] =
          received arr (A cur) # map (\<lambda>k. received arr (A (cur + 1 + int k))) [0..<n]"
      unfolding shift by (simp only: map_upt_Suc) simp
    with assms Inr cont show ?thesis
      unfolding run_of_def All_less_Suc2 shift by simp
  next
    case (Inl err)
    with assms(3) obtain m where m: "n = Suc m"
      and last: "rest_failure (A (cur + int (Suc m))) = Some err"
      and before: "\<forall>k<m. rest_failure (A (cur + int (Suc k))) = None"
      unfolding run_of_def shift by auto
    from before assms(2) have "\<forall>k<Suc m. rest_failure (A (cur + int k)) = None"
      unfolding All_less_Suc2 by simp
    with last cont Inl m show ?thesis
      unfolding run_of_def by simp
  qed
qed

lemma paginate_run:
  "paginate f e arr s tr = Some y \<Longrightarrow>
     \<exists>n. fst y = tr @ map (\<lambda>k. Rest (e (currentPage s + int k))) [0..<n] \<and>
         run_of (\<lambda>p. f (e p)) arr (allItems s) (currentPage s) (totalPages s) n (snd y)"
proof (induction rule: paginate.raw_induct[rotated 1, consumes 1])
  case (1 paginate' f e arr s tr y)
  show ?case
  proof (cases "currentPage s \<le> totalPages s")
    case False
    with 1(2) have "y = (tr, Inr (allItems s))" by simp
    with False run_of_stop[of "currentPage s" "totalPages s"] show ?thesis
      by (intro exI[of _ 0]) simp
  next
    case True
    show ?thesis
    proof (cases "page_step f e arr s")
      case (Inl err)
      with True 1(2) have r: "y = (tr @ [Rest (e (currentPage s))], Inl err)" by simp
      from page_step_Inl[OF Inl] True
      have "run_of (\<lambda>p. f (e p)) arr (allItems s) (currentPage s) (totalPages s) (Suc 0) (Inl err)"
        by (intro run_of_fail) simp_all
      with r show ?thesis by (intro exI[of _ "Suc 0"]) simp
    next
      case (Inr s')
      with True 1(2) have "paginate' f e arr s' (tr @ [Rest (e (currentPage s))]) = Some y"
        by simp
      from 1(1)[OF this] obtain n where
        n: "fst y = (tr @ [Rest (e (currentPage s))]) @
                    map (\<lambda>k. Rest (e (currentPage s' + int k))) [0..<n]"
           "run_of (\<lambda>p. f (e p)) arr (allItems s') (currentPage s') (totalPages s') n (snd y)"
        by blast
      note st = page_step_Inr[OF Inr]
      have shift: "currentPage s + 1 + int k = currentPage s + int (Suc k)" for k by simp
      from st n(2) True
      have "run_of (\<lambda>p. f (e p)) arr (allItems s) (currentPage s) (totalPages s) (Suc n) (snd y)"
        by (intro run_of_step) simp_all
      moreover have "fst y = tr @ map (\<lambda>k. Rest (e (currentPage s + int k))) [0..<Suc n]"
        using n(1) st unfolding map_upt_Suc by (simp add: shift)
      ultimately show ?thesis by blast
    qed
  qed
qed


lemma run_of_Inr_no_failure:
  "run_of A arr acc cur tot n (Inr items) \<Longrightarrow> k < n \<Longrightarrow> rest_failure (A (cur + int k)) = None"
  by (simp add: run_of_def)



lemma int_length_concat:
  "int (length (concat xss)) = sum_list (map (\<lambda>xs. int (length xs)) xss)"
  by (induction xss) auto

section \<open>list_features_in_release\<close>

lemma list_features_unfold:
  assumes "releaseReference a = Some ref" and "ref \<noteq> []"
  shows "handleListFeaturesInRelease B a =
     map_option (\<lambda>y. (fst y, case snd y of
                          Inl error \<Rightarrow> Inl (catch_block ''Failed to list features in release: '' error)
                        | Inr allFeatures \<Rightarrow> Inr (features_text allFeatures)))
       (paginate (fetch B) (\<lambda>p. GET_release_features ref p (per_page a)) features first_page [])"
  using assms unfolding handleListFeaturesInRelease_def try_catch_def features_text_def
  by (auto intro!: map_option_cong split: prod.splits sum.splits)

lemma list_features_success:
  assumes "releaseReference a = Some ref" and "ref \<noteq> []"
    and "handleListFeaturesInRelease B a = Some (issued, Inr text)"
  shows "\<exists>n. 0 < n \<and>
     issued = map (\<lambda>k. Rest (GET_release_features ref (1 + int k) (per_page a))) [0..<n] \<and>
     (\<forall>k<n. 1 + int k \<le> held_after (features_answer B a ref) 1 1 k) \<and>
     \<not> 1 + int n \<le> held_after (features_answer B a ref) 1 1 n \<and>
     text = Stringify (Some (JObj
       [(''total_count'',
         JNum (sum_list (map (\<lambda>k. int (length (received features (features_answer B a ref (1 + int k)))))
                 [0..<n]))),
        (''features'',
         JArr (concat (map (\<lambda>k. received features (features_answer B a ref (1 + int k))) [0..<n])))]))"
proof -
  from assms obtain y where
    y: "paginate (fetch B) (\<lambda>p. GET_release_features ref p (per_page a)) features first_page [] = Some y"
    and i: "issued = fst y"
    and t: "(case snd y of
               Inl error \<Rightarrow> Inl (catch_block ''Failed to list features in release: '' error)
             | Inr allFeatures \<Rightarrow> Inr (features_text allFeatures)) = Inr text"
    unfolding list_features_unfold[OF assms(1,2)] by auto
  from t obtain allFeatures where s: "snd y = Inr allFeatures" and t': "text = features_text allFeatures"
    by (auto split: sum.splits)
  from paginate_run[OF y] s obtain n where
    tr: "fst y = map (\<lambda>k. Rest (GET_release_features ref (1 + int k) (per_page a))) [0..<n]"
    and ro: "run_of (features_answer B a ref) features [] 1 1 n (Inr allFeatures)"
    unfolding features_answer_def[abs_def] by (auto simp: first_page_def)
  from ro have c: "\<forall>k<n. 1 + int k \<le> held_after (features_answer B a ref) 1 1 k"
    and st: "\<not> 1 + int n \<le> held_after (features_answer B a ref) 1 1 n"
    and items: "allFeatures = concat (map (\<lambda>k. received features (features_answer B a ref (1 + int k))) [0..<n])"
    by (simp_all add: run_of_def)
  from st have "0 < n" by (cases n) auto
  moreover have "int (length allFeatures) =
      sum_list (map (\<lambda>k. int (length (received features (features_answer B a ref (1 + int k))))) [0..<n])"
    unfolding items int_length_concat by (simp add: comp_def)
  ultimately show ?thesis
    using i tr c st t' items unfolding features_text_def by (intro exI[of _ n]) simp
qed

lemma list_features_three_pages:
  assumes "releaseReference a = Some ref" and "ref \<noteq> []"
    and "answers_page (features_answer B a ref 1) [x1] 3"
    and "answers_page (features_answer B a ref 2) [x2] 3"
    and "answers_page (features_answer B a ref 3) [x3] 3"
  shows "handleListFeaturesInRelease B a =
     Some ([Rest (GET_release_features ref 1 (per_page a)),
            Rest (GET_release_features ref 2 (per_page a)),
            Rest (GET_release_features ref 3 (per_page a))],
           Inr (Stringify (Some (JObj [(''total_count'', JNum 3), (''features'', JArr [x1, x2, x3])]))))"
proof -
  let ?e = "\<lambda>p. GET_release_features ref p (per_page a)"
  have "paginate (fetch B) ?e features first_page [] =
        Some ([Rest (?e 1), Rest (?e 2), Rest (?e 3)], Inr [x1, x2, x3])"
    apply (subst paginate_next[OF _ page_step_answers_page[where items = "[x1]" and count = 3]])
    using assms(3) apply (simp_all add: first_page_def features_answer_def)
    apply (subst paginate_next[OF _ page_step_answers_page[where items = "[x2]" and count = 3]])
    using assms(4) apply (simp_all add: features_answer_def)
    apply (subst paginate_next[OF _ page_step_answers_page[where items = "[x3]" and count = 3]])
    using assms(5) apply (simp_all add: features_answer_def)
    apply (subst paginate_stop)
    apply simp_all
    done
  then show ?thesis
    unfolding list_features_unfold[OF assms(1,2)] by (simp add: features_text_def)
qed

lemma list_features_one_page:
  assumes "releaseReference a = Some ref" and "ref \<noteq> []"
    and "answers_page (features_answer B a ref 1) items 1"
  shows "handleListFeaturesInRelease B a =
     Some ([Rest (GET_release_features ref 1 (per_page a))],
           Inr (Stringify (Some (JObj [(''total_count'', JNum (int (length items))),
                                       (''features'', JArr items)]))))"
proof -
  let ?e = "\<lambda>p. GET_release_features ref p (per_page a)"
  have "paginate (fetch B) ?e features first_page [] = Some ([Rest (?e 1)], Inr items)"
    apply (subst paginate_next[OF _ page_step_answers_page[where items = items and count = 1]])
    using assms(3) apply (simp_all add: first_page_def features_answer_def)
    apply (subst paginate_stop)
    apply simp_all
    done
  then show ?thesis
    unfolding list_features_unfold[OF assms(1,2)] by (simp add: features_text_def)
qed

text \<open>
  C5. The listing fetches page 1 first and goes on while the page number is at most the
  total-page count it holds: a run that returns has fetched the pages 1 to \<open>n\<close> in order,
  each under the loop condition, and stopped because page \<open>n + 1\<close> exceeds the count held.
  The \<^verbatim>\<open>total_count\<close> it reports is the sum of the lengths of the arrays received, and the
  features are those arrays in order. When three pages answer with one item each and the
  count 3, exactly three fetches are issued and three items returned; when the first page
  answers with the count 1, exactly one fetch is issued, whatever \<^verbatim>\<open>perPage\<close> is.
\<close>

theorem list_features_pagination:
  assumes "releaseReference a = Some ref" and "ref \<noteq> []"
  shows
    "(\<forall>issued text. handleListFeaturesInRelease B a = Some (issued, Inr text) \<longrightarrow>
        (\<exists>n. 0 < n \<and>
           issued = map (\<lambda>k. Rest (GET_release_features ref (1 + int k) (per_page a))) [0..<n] \<and>
           (\<forall>k<n. 1 + int k \<le> held_after (features_answer B a ref) 1 1 k) \<and>
           \<not> 1 + int n \<le> held_after (features_answer B a ref) 1 1 n \<and>
           text = Stringify (Some (JObj
             [(''total_count'',
               JNum (sum_list (map (\<lambda>k. int (length (received features
                                 (features_answer B a ref (1 + int k))))) [0..<n]))),
              (''features'',
               JArr (concat (map (\<lambda>k. received features (features_answer B a ref (1 + int k)))
                              [0..<n])))])))) \<and>
     (\<forall>x1 x2 x3.
        answers_page (features_answer B a ref 1) [x1] 3 \<and>
        answers_page (features_answer B a ref 2) [x2] 3 \<and>
        answers_page (features_answer B a ref 3) [x3] 3 \<longrightarrow>
        handleListFeaturesInRelease B a =
          Some ([Rest (GET_release_features ref 1 (per_page a)),
                 Rest (GET_release_features ref 2 (per_page a)),
                 Rest (GET_release_features ref 3 (per_page a))],
                Inr (Stringify (Some (JObj
                  [(''total_count'', JNum 3), (''features'', JArr [x1, x2, x3])]))))) \<and>
     (\<forall>items.
        answers_page (features_answer B a ref 1) items 1 \<longrightarrow>
        handleListFeaturesInRelease B a =
          Some ([Rest (GET_release_features ref 1 (per_page a))],
                Inr (Stringify (Some (JObj
                  [(''total_count'', JNum (int (length items))), (''features'', JArr items)])))))"
  using list_features_success[OF assms] list_features_three_pages[OF assms]
    list_features_one_page[OF assms]
  by blast

lemma three_pages_answers:
  "answers_page (features_answer three_pages_backend a ref p) [JNum p] 3"
  by (simp add: answers_page_def features_answer_def three_pages_backend_def page_response_def)

theorem list_features_pagination_witness:
  "handleListFeaturesInRelease three_pages_backend
      (no_arguments\<lparr>releaseReference := Some ''PROJ-R-1'', perPage := Some 1\<rparr>) =
     Some ([Rest (GET_release_features ''PROJ-R-1'' 1 1),
            Rest (GET_release_features ''PROJ-R-1'' 2 1),
            Rest (GET_release_features ''PROJ-R-1'' 3 1)],
           Inr (Stringify (Some (JObj
             [(''total_count'', JNum 3), (''features'', JArr [JNum 1, JNum 2, JNum 3])]))))"
proof -
  let ?a = "no_arguments\<lparr>releaseReference := Some ''PROJ-R-1'', perPage := Some 1\<rparr>"
  have r: "releaseReference ?a = Some ''PROJ-R-1''" and n: "''PROJ-R-1'' \<noteq> []"
    and p: "per_page ?a = 1"
    by (simp_all add: per_page_def)
  show ?thesis
    using list_features_pagination[OF r n, of three_pages_backend]
      three_pages_answers[of ?a "''PROJ-R-1''"] p
    by simp
qed






section \<open>Failures\<close>
















section \<open>A page without its array\<close>








section \<open>update_release\<close>

text \<open>
  C9. Given a release reference and a non-empty fields mapping, update_release issues
  one request, the \<^verbatim>\<open>PUT\<close> for that reference with the body \<^verbatim>\<open>{release: {...fields}}\<close>, and
  on an ok response with a \<^verbatim>\<open>release\<close> member it returns \<^verbatim>\<open>{message, release: {...}}\<close>; with
  the reference missing or empty, or the fields missing or empty, it throws
  \<open>InvalidParams\<close> and issues no request.
\<close>

theorem update_release_contract:
  "(reference a = Some ref \<and> ref \<noteq> [] \<and> fields_arg a = Some given \<and> given \<noteq> [] \<longrightarrow>
      fst (handleUpdateRelease B a) = [Rest (PUT_release ref (JObj [(''release'', JObj given)]))] \<and>
      (\<forall>data updated.
         ok_body (fetch B (PUT_release ref (JObj [(''release'', JObj given)]))) data \<and>
         release data = Some updated \<longrightarrow>
         snd (handleUpdateRelease B a) =
           Inr (Stringify (Some (JObj [(''message'', JStr ''Release updated successfully''),
                                       (''release'', updated)]))))) \<and>
   (reference a = None \<or> reference a = Some [] \<or> fields_arg a = None \<or> fields_arg a = Some [] \<longrightarrow>
      (\<exists>message. handleUpdateRelease B a = ([], Inl (McpError InvalidParams message))))"
  by (auto simp: handleUpdateRelease_def try_catch_def Let_def ok_body_def members_def
      split: option.splits sum.splits fetch_outcome.splits)

theorem update_release_contract_witness:
  "handleUpdateRelease release_backend
      (no_arguments\<lparr>reference := Some ''PROJ-R-1'',
                    fields_arg := Some [(''parking_lot'', JBool True)]\<rparr>) =
     ([Rest (PUT_release ''PROJ-R-1'' (JObj [(''release'', JObj [(''parking_lot'', JBool True)])]))],
      Inr (Stringify (Some (JObj
        [(''message'', JStr ''Release updated successfully''),
         (''release'', JObj [(''reference_num'', JStr ''PROJ-R-1''),
                            (''parking_lot'', JBool True)])])))) \<and>
   (\<exists>message. handleUpdateRelease release_backend (no_arguments\<lparr>reference := Some ''PROJ-R-1''\<rparr>) =
      ([], Inl (McpError InvalidParams message)))"
proof -
  let ?a = "no_arguments\<lparr>reference := Some ''PROJ-R-1'',
                         fields_arg := Some [(''parking_lot'', JBool True)]\<rparr>"
  let ?d = "\<lparr> features = None, products = None, releases = None,
              release = Some (JObj [(''reference_num'', JStr ''PROJ-R-1''),
                                   (''parking_lot'', JBool True)]),
              pagination = None \<rparr>"
  have o: "ok_body (fetch release_backend
             (PUT_release ''PROJ-R-1'' (JObj [(''release'', JObj [(''parking_lot'', JBool True)])]))) ?d"
    by (simp add: ok_body_def release_backend_def)
  have r: "release ?d = Some (JObj [(''reference_num'', JStr ''PROJ-R-1''),
                                    (''parking_lot'', JBool True)])"
    by simp
  have sent: "reference ?a = Some ''PROJ-R-1'' \<and> ''PROJ-R-1'' \<noteq> [] \<and>
      fields_arg ?a = Some [(''parking_lot'', JBool True)] \<and> [(''parking_lot'', JBool True)] \<noteq> []"
    by simp
  note c = update_release_contract[where a = ?a and ref = "''PROJ-R-1''"
        and given = "[(''parking_lot'', JBool True)]" and B = release_backend,
        THEN conjunct1, rule_format, OF sent]
  from c[THEN conjunct1] c[THEN conjunct2, rule_format, OF conjI[OF o r]]
    update_release_contract[where a = "no_arguments\<lparr>reference := Some ''PROJ-R-1''\<rparr>"
        and B = release_backend, THEN conjunct2]
  show ?thesis
    by (simp add: prod_eq_iff no_arguments_def)
qed

end
